theory Spec2Isabelle
  imports Main "HOL-Library.Sublist"
begin

section \<open>Data model of the orchestrator (backend/ai\_generator.py)\<close>

text \<open>
  The completion service answers with a stop reason and an ordered list of content
  blocks. A block is either a text block (it has a \<open>text\<close> attribute and type
  \<open>"text"\<close>) or a tool-use block (type \<open>"tool_use"\<close>, with \<open>name\<close>, \<open>id\<close> and
  \<open>input\<close>, and no \<open>text\<close> attribute). The keyword arguments of a tool call are kept
  as an association list.
\<close>

type_synonym tool_input = "(string \<times> string) list"

datatype content_block =
    TextBlock string
  | ToolUseBlock string string tool_input  \<comment> \<open>name, id, input\<close>

record response =
  content :: "content_block list"
  stop_reason :: string

text \<open>
  The dictionaries appended to \<open>tool_results\<close>: \<open>tool_use_id\<close>, \<open>content\<close> and the
  \<open>is_error\<close> key, which the source sets (to True) only on the failure branch.
\<close>

datatype tool_result = ToolResult string string bool  \<comment> \<open>tool\_use\_id, content, is\_error\<close>

datatype message_content =
    Query string
  | Blocks "content_block list"
  | Results "tool_result list"

datatype message = Message string message_content  \<comment> \<open>role, content\<close>

datatype tool_def = ToolDef string string string  \<comment> \<open>name, description, input\_schema\<close>

text \<open>
  \<open>self.base_params\<close> and the keyword arguments of \<open>client.messages.create\<close>. A key
  that the source leaves out of the dictionary (\<open>tools\<close>, \<open>tool_choice\<close>) is \<open>None\<close>.
\<close>

record base_params =
  model :: string
  temperature :: int
  max_tokens :: int

record api_params = base_params +
  messages :: "message list"
  system :: string
  tools :: "tool_def list option"
  tool_choice :: "string option"

text \<open>
  Exceptions that can leave \<open>generate_response\<close>: whatever the completion call
  raises, and the two that \<open>content[0].text\<close> raises (no element 0; element 0 without a
  \<open>text\<close> attribute).
\<close>

datatype exn = ClientError string | IndexError | AttributeError

text \<open>
  The client and the tool manager are external and stateful (the tests script them with
  \<open>side_effect\<close> lists), so both act on a world \<open>'w\<close>. The client returns a response or
  raises; \<open>execute_tool\<close> returns a string or raises an exception whose \<open>str(e)\<close> is
  the left value. The run keeps a trace of every completion call and every tool
  execution, in order.
\<close>

type_synonym 'w client = "'w \<Rightarrow> api_params \<Rightarrow> (string + response) \<times> 'w"
type_synonym 'w tool_manager = "'w \<Rightarrow> string \<Rightarrow> tool_input \<Rightarrow> (string + string) \<times> 'w"

datatype event = ApiCall api_params | ToolExec string tool_input

record 'w state =
  world :: 'w
  trace :: "event list"

text \<open>
  The generator object: its client, \<open>self.model\<close>, \<open>self.base_params\<close> and the class
  attribute \<open>SYSTEM_PROMPT\<close> (a fixed text whose wording no property below depends on,
  so it is a field).
\<close>

record 'w AIGenerator =
  client :: "'w client"
  self_model :: string
  self_base_params :: base_params
  SYSTEM_PROMPT :: string

definition AIGenerator_init :: "'w client \<Rightarrow> string \<Rightarrow> string \<Rightarrow> 'w AIGenerator" where
  "AIGenerator_init c m prompt =
     \<lparr>client = c, self_model = m,
      self_base_params = \<lparr>model = m, temperature = 0, max_tokens = 800\<rparr>,
      SYSTEM_PROMPT = prompt\<rparr>"

section \<open>The orchestrator\<close>

text \<open>\<open>self.client.messages.create(**params)\<close>: logged, and its exception propagates.\<close>

definition create :: "'w AIGenerator \<Rightarrow> api_params \<Rightarrow> 'w state \<Rightarrow> (exn + response) \<times> 'w state" where
  "create g p s =
     (case client g (world s) p of
        (Inl m, w) \<Rightarrow> (Inl (ClientError m), \<lparr>world = w, trace = trace s @ [ApiCall p]\<rparr>)
      | (Inr r, w) \<Rightarrow> (Inr r, \<lparr>world = w, trace = trace s @ [ApiCall p]\<rparr>))"

text \<open>\<open>tool_manager.execute_tool(name, **input)\<close> inside the \<open>try\<close>: logged.\<close>

definition execute_tool :: "'w tool_manager \<Rightarrow> string \<Rightarrow> tool_input \<Rightarrow> 'w state \<Rightarrow> (string + string) \<times> 'w state" where
  "execute_tool tm n inp s =
     (case tm (world s) n inp of
        (r, w) \<Rightarrow> (r, \<lparr>world = w, trace = trace s @ [ToolExec n inp]\<rparr>))"

text \<open>\<open>response.content[0].text\<close>, as the tool paths return it.\<close>

fun content0_text :: "content_block list \<Rightarrow> exn + string" where
  "content0_text [] = Inl IndexError"
| "content0_text (TextBlock t # bs) = Inr t"
| "content0_text (ToolUseBlock n i inp # bs) = Inl AttributeError"

text \<open>
  The direct path of \<open>generate_response\<close>: the first block with a \<open>text\<close> attribute,
  else the empty string.
\<close>

fun first_text :: "content_block list \<Rightarrow> string" where
  "first_text [] = []"
| "first_text (TextBlock t # bs) = t"
| "first_text (ToolUseBlock n i inp # bs) = first_text bs"

text \<open>
  STEP 2 of a round: the \<open>for\<close> loop over the blocks with its \<open>try\<close>; on the first
  exception the error result is appended, the flag is set and the loop breaks.
  Returns \<open>(tool_results, tool_execution_failed)\<close>.
\<close>

fun run_tools :: "'w tool_manager \<Rightarrow> content_block list \<Rightarrow> tool_result list \<Rightarrow> 'w state
    \<Rightarrow> (tool_result list \<times> bool) \<times> 'w state" where
  "run_tools tm [] tool_results s = ((tool_results, False), s)"
| "run_tools tm (TextBlock t # bs) tool_results s = run_tools tm bs tool_results s"
| "run_tools tm (ToolUseBlock n i inp # bs) tool_results s =
     (case execute_tool tm n inp s of
        (Inr tool_result, s') \<Rightarrow> run_tools tm bs (tool_results @ [ToolResult i tool_result False]) s'
      | (Inl e, s') \<Rightarrow>
          ((tool_results @ [ToolResult i (''Tool execution failed: '' @ e) True], True), s'))"

text \<open>
  The loop of TERMINATION CHECK 3 ("Execute the final tool calls"): the same \<open>try\<close>, but
  the \<open>except\<close> branch has no \<open>break\<close> and sets no flag.
\<close>

fun run_final_tools :: "'w tool_manager \<Rightarrow> content_block list \<Rightarrow> tool_result list \<Rightarrow> 'w state
    \<Rightarrow> tool_result list \<times> 'w state" where
  "run_final_tools tm [] final_tool_results s = (final_tool_results, s)"
| "run_final_tools tm (TextBlock t # bs) final_tool_results s =
     run_final_tools tm bs final_tool_results s"
| "run_final_tools tm (ToolUseBlock n i inp # bs) final_tool_results s =
     (case execute_tool tm n inp s of
        (Inr tool_result, s') \<Rightarrow>
          run_final_tools tm bs (final_tool_results @ [ToolResult i tool_result False]) s'
      | (Inl e, s') \<Rightarrow>
          run_final_tools tm bs
            (final_tool_results @ [ToolResult i (''Tool execution failed: '' @ e) True]) s')"

text \<open>\<open>if tool_results: messages.append({"role": "user", "content": tool_results})\<close>\<close>

definition append_results :: "message list \<Rightarrow> tool_result list \<Rightarrow> message list" where
  "append_results msgs rs = (if rs \<noteq> [] then msgs @ [Message ''user'' (Results rs)] else msgs)"

text \<open>\<open>{**self.base_params, "messages": messages, "system": base_params["system"]}\<close>\<close>

definition final_params :: "'w AIGenerator \<Rightarrow> api_params \<Rightarrow> message list \<Rightarrow> api_params" where
  "final_params g bp msgs =
     \<lparr>model = model (self_base_params g), temperature = temperature (self_base_params g),
      max_tokens = max_tokens (self_base_params g),
      messages = msgs, system = system bp, tools = None, tool_choice = None\<rparr>"

text \<open>
  STEP 5: the same dictionary, with \<open>base_params.get("tools", [])\<close> and automatic tool
  choice added unless this is the last round.
\<close>

definition next_params :: "'w AIGenerator \<Rightarrow> api_params \<Rightarrow> message list \<Rightarrow> bool \<Rightarrow> api_params" where
  "next_params g bp msgs is_last_round =
     (if \<not> is_last_round
      then (final_params g bp msgs)
             \<lparr>tools := Some (case tools bp of None \<Rightarrow> [] | Some ts \<Rightarrow> ts),
              tool_choice := Some ''auto''\<rparr>
      else final_params g bp msgs)"

text \<open>The final call without tools of both termination paths, returning \<open>content[0].text\<close>.\<close>

definition final_call :: "'w AIGenerator \<Rightarrow> api_params \<Rightarrow> message list \<Rightarrow> 'w state
    \<Rightarrow> (exn + string) \<times> 'w state" where
  "final_call g bp msgs s =
     (case create g (final_params g bp msgs) s of
        (Inl e, s') \<Rightarrow> (Inl e, s')
      | (Inr final_response, s') \<Rightarrow> (content0_text (content final_response), s'))"

text \<open>
  \<open>_execute_tool_rounds\<close>. The \<open>while current_round < max_rounds\<close> loop is the
  recursion; its state is \<open>current_round\<close>, \<open>messages\<close> and \<open>current_response\<close>.
\<close>

function rounds_loop :: "'w AIGenerator \<Rightarrow> api_params \<Rightarrow> 'w tool_manager \<Rightarrow> int \<Rightarrow> int
    \<Rightarrow> message list \<Rightarrow> response \<Rightarrow> 'w state \<Rightarrow> (exn + string) \<times> 'w state" where
  "rounds_loop g bp tm max_rounds current_round msgs current_response s =
     (if current_round < max_rounds then
        (let current_round' = current_round + 1;
             msgs1 = msgs @ [Message ''assistant'' (Blocks (content current_response))]
         in case run_tools tm (content current_response) [] s of
              ((tool_results, True), s1) \<Rightarrow> final_call g bp (append_results msgs1 tool_results) s1
            | ((tool_results, False), s1) \<Rightarrow>
                (let msgs2 = append_results msgs1 tool_results;
                     is_last_round = (current_round' \<ge> max_rounds)
                 in case create g (next_params g bp msgs2 is_last_round) s1 of
                      (Inl e, s2) \<Rightarrow> (Inl e, s2)
                    | (Inr r, s2) \<Rightarrow>
                        if stop_reason r \<noteq> ''tool_use'' then (content0_text (content r), s2)
                        else if is_last_round then
                          (let msgs3 = msgs2 @ [Message ''assistant'' (Blocks (content r))]
                           in case run_final_tools tm (content r) [] s2 of
                                (final_tool_results, s3) \<Rightarrow>
                                  final_call g bp (append_results msgs3 final_tool_results) s3)
                        else rounds_loop g bp tm max_rounds current_round' msgs2 r s2))
      else (Inr ''Error: Maximum rounds exceeded without proper termination'', s))"
  by pat_completeness auto
termination
  by (relation "measure (\<lambda>(g, bp, tm, max_rounds, current_round, msgs, r, s).
        nat (max_rounds - current_round))") auto

declare rounds_loop.simps [simp del]

definition execute_tool_rounds :: "'w AIGenerator \<Rightarrow> response \<Rightarrow> api_params \<Rightarrow> 'w tool_manager
    \<Rightarrow> int \<Rightarrow> 'w state \<Rightarrow> (exn + string) \<times> 'w state" where
  "execute_tool_rounds g initial_response bp tm max_rounds s =
     rounds_loop g bp tm max_rounds 0 (messages bp) initial_response s"

text \<open>Python truthiness of an optional list (\<open>if tools:\<close>).\<close>

fun truthy :: "'a list option \<Rightarrow> bool" where
  "truthy None = False"
| "truthy (Some []) = False"
| "truthy (Some (x # xs)) = True"

text \<open>The parameters of the first completion call, as \<open>generate_response\<close> builds them.\<close>

definition initial_params :: "'w AIGenerator \<Rightarrow> string \<Rightarrow> string option \<Rightarrow> tool_def list option
    \<Rightarrow> api_params" where
  "initial_params g query conversation_history tools_arg =
     (let system_content =
            (case conversation_history of
               None \<Rightarrow> SYSTEM_PROMPT g
             | Some history \<Rightarrow>
                 if history \<noteq> []
                 then SYSTEM_PROMPT g @ [CHR 0x0A, CHR 0x0A] @ ''Previous conversation:''
                        @ [CHR 0x0A] @ history
                 else SYSTEM_PROMPT g);
          api_params =
            \<lparr>model = model (self_base_params g), temperature = temperature (self_base_params g),
             max_tokens = max_tokens (self_base_params g),
             messages = [Message ''user'' (Query query)], system = system_content,
             tools = None, tool_choice = None\<rparr>
      in if truthy tools_arg
         then api_params\<lparr>tools := tools_arg, tool_choice := Some ''auto''\<rparr>
         else api_params)"

text \<open>\<open>generate_response\<close>, with \<open>max_rounds=2\<close> at its only call of the round loop.\<close>

definition generate_response :: "'w AIGenerator \<Rightarrow> string \<Rightarrow> string option \<Rightarrow> tool_def list option
    \<Rightarrow> 'w tool_manager option \<Rightarrow> 'w state \<Rightarrow> (exn + string) \<times> 'w state" where
  "generate_response g query conversation_history tools_arg tool_manager s =
     (let api_params = initial_params g query conversation_history tools_arg
      in case create g api_params s of
           (Inl e, s') \<Rightarrow> (Inl e, s')
         | (Inr response, s') \<Rightarrow>
             (case tool_manager of
                Some tm \<Rightarrow>
                  if stop_reason response = ''tool_use''
                  then execute_tool_rounds g response api_params tm 2 s'
                  else (Inr (first_text (content response)), s')
              | None \<Rightarrow> (Inr (first_text (content response)), s')))"

section \<open>Retrieval tools\<close>

text \<open>
  \<open>CourseSearchTool\<close> and \<open>CourseOutlineTool\<close> live in backend/search\_tools.py and
  \<open>SearchResults\<close> in backend/vector\_store.py; neither file is among the sources (only
  their tests are), so the definitions of this section follow the specification, section
  4.3, and the shapes that tests/test\_deduplication.py and
  tests/test\_course\_search\_tool.py construct.
\<close>

text \<open>
  Modelled from the spec: search\_tools.py and vector\_store.py are missing. The metadata
  mapping of one result, with its \<open>course_title\<close> and optional \<open>lesson_number\<close>.
\<close>

record chunk_meta =
  course_title :: string
  lesson_number :: "int option"

text \<open>
  Modelled from the spec: vector\_store.py is missing. \<open>SearchResults\<close>
  (the RetrievalOutcome of section 3): parallel documents and metadata, and an optional
  error. The \<open>distances\<close> are floats that no formatting step reads; they are left out.
\<close>

record SearchResults =
  documents :: "string list"
  metadata :: "chunk_meta list"
  error :: "string option"

text \<open>Modelled from the spec: search\_tools.py is missing. A citation \<open>{text, link}\<close>.\<close>

datatype source = Source string "string option"

text \<open>Modelled from the spec: search\_tools.py is missing. The \<open>text\<close> of a citation.\<close>

fun source_text :: "source \<Rightarrow> string" where
  "source_text (Source t l) = t"

text \<open>Modelled from the spec: search\_tools.py is missing. The \<open>link\<close> of a citation.\<close>

fun source_link :: "source \<Rightarrow> string option" where
  "source_link (Source t l) = l"

text \<open>
  Modelled from the spec: vector\_store.py is missing. One lesson of an outline (number,
  title, optional link), as tests/test\_deduplication.py builds it.
\<close>

record lesson_entry =
  lesson_no :: int
  lesson_title :: string
  lesson_link :: "string option"

text \<open>
  Modelled from the spec: vector\_store.py is missing. The outline record that the backend
  resolves: title, optional link, instructor and the ordered lessons.
\<close>

record outline =
  outline_title :: string
  course_link :: "string option"
  instructor :: string
  lessons :: "lesson_entry list"

text \<open>
  Modelled from the spec: vector\_store.py is missing. The retrieval backend of section 6.
  The lesson-link lookup is keyed by course title and lesson number; the number is passed
  as the result carries it (possibly absent), since the specification does not say what
  is looked up then.
\<close>

record backend =
  search :: "string \<Rightarrow> string option \<Rightarrow> int option \<Rightarrow> SearchResults"
  get_lesson_link :: "string \<Rightarrow> int option \<Rightarrow> string option"
  get_course_outline :: "string \<Rightarrow> outline option"

text \<open>
  Modelled from the spec: search\_tools.py is missing. The decimal digits of a natural
  number, for the lesson number inside a key or a message.
\<close>

function digits :: "nat \<Rightarrow> string" where
  "digits n = (if n < 10 then [char_of (48 + n)] else digits (n div 10) @ [char_of (48 + n mod 10)])"
  by pat_completeness auto
termination
  by (relation "measure id") auto

text \<open>
  Modelled from the spec: search\_tools.py is missing. A lesson number as Python's
  \<open>str\<close> renders an integer.
\<close>

definition str_int :: "int \<Rightarrow> string" where
  "str_int i = (if i < 0 then CHR ''-'' # digits (nat (- i)) else digits (nat i))"

text \<open>
  Modelled from the spec: search\_tools.py is missing. The composite key
  \<open>"<course_title> - Lesson <n>"\<close>, or the bare course title without a lesson number.
\<close>

definition source_key :: "chunk_meta \<Rightarrow> string" where
  "source_key m =
     (case lesson_number m of
        None \<Rightarrow> course_title m
      | Some n \<Rightarrow> course_title m @ '' - Lesson '' @ str_int n)"

text \<open>
  Modelled from the spec: search\_tools.py is missing. "Append \<open>{text: key, link}\<close> to
  the recorded sources only if this exact key has not already been recorded in this
  execution, preserving first-seen order".
\<close>

definition record_source :: "source list \<Rightarrow> source \<Rightarrow> source list" where
  "record_source sources src =
     (if source_text src \<in> set (map source_text sources) then sources else sources @ [src])"

text \<open>
  Modelled from the spec: search\_tools.py is missing. The source extraction over the
  results in backend order: "for each result, build a composite key, resolve an optional
  link via the backend's lesson-link lookup", and record it as above.
\<close>

fun extract_sources :: "backend \<Rightarrow> chunk_meta list \<Rightarrow> source list \<Rightarrow> source list" where
  "extract_sources store [] sources = sources"
| "extract_sources store (m # ms) sources =
     extract_sources store ms
       (record_source sources
          (Source (source_key m) (get_lesson_link store (course_title m) (lesson_number m))))"

text \<open>
  Modelled from the spec: search\_tools.py is missing. One document as a block headed by
  \<open>[<course_title> - Lesson <n>]\<close> and followed by the document body.
\<close>

definition format_block :: "string \<times> chunk_meta \<Rightarrow> string" where
  "format_block dm = ''['' @ source_key (snd dm) @ '']'' @ [CHR 0x0A] @ fst dm"

text \<open>
  Modelled from the spec: search\_tools.py is missing. "Blocks joined by a blank-line
  separator, in the order returned by the backend".
\<close>

fun join_blocks :: "string list \<Rightarrow> string" where
  "join_blocks [] = []"
| "join_blocks [b] = b"
| "join_blocks (b # c # bs) = b @ [CHR 0x0A, CHR 0x0A] @ join_blocks (c # bs)"

text \<open>
  Modelled from the spec: search\_tools.py is missing. The "no content found" message,
  filter-neutral without filters, with the course qualifier when a course name was
  supplied and the lesson qualifier appended when a lesson number was.
\<close>

definition no_content_message :: "string option \<Rightarrow> int option \<Rightarrow> string" where
  "no_content_message course_name lesson_num =
     ''No relevant content found''
       @ (case course_name of None \<Rightarrow> [] | Some c \<Rightarrow> '' in course '' @ [CHR 0x27] @ c @ [CHR 0x27])
       @ (case lesson_num of None \<Rightarrow> [] | Some n \<Rightarrow> '' in lesson '' @ str_int n)
       @ ''.''"

text \<open>
  Modelled from the spec: search\_tools.py is missing. \<open>SearchTool.execute\<close>
  returns the text for the model together with the sources recorded by this execution: a
  backend error is passed through verbatim and records nothing; zero matches give the
  message above; otherwise the formatted blocks and the deduplicated citations.
\<close>

definition SearchTool_execute :: "backend \<Rightarrow> string \<Rightarrow> string option \<Rightarrow> int option
    \<Rightarrow> string \<times> source list" where
  "SearchTool_execute store query course_name lesson_num =
     (let results = search store query course_name lesson_num
      in case error results of
           Some e \<Rightarrow> (e, [])
         | None \<Rightarrow>
             if documents results = [] then (no_content_message course_name lesson_num, [])
             else (join_blocks (map format_block (zip (documents results) (metadata results))),
                   extract_sources store (map snd (zip (documents results) (metadata results))) []))"

text \<open>
  Modelled from the spec: search\_tools.py is missing. What the specification leaves open
  about \<open>OutlineTool\<close>: the text of a course citation and of a lesson citation, the
  rendering of the outline, and the wording of the "course not found" message.
\<close>

record outline_style =
  course_text :: "outline \<Rightarrow> string"
  lesson_text :: "outline \<Rightarrow> lesson_entry \<Rightarrow> string"
  render :: "outline \<Rightarrow> string"
  not_found :: "string \<Rightarrow> string"

text \<open>
  Modelled from the spec: search\_tools.py is missing. A link is recorded when it is
  present and its value has not been recorded yet ("deduplicated by link value, not by
  lesson identity"); an absent link has no value to record.
\<close>

definition record_link :: "source list \<Rightarrow> string \<Rightarrow> string option \<Rightarrow> source list" where
  "record_link sources txt link =
     (case link of
        None \<Rightarrow> sources
      | Some l \<Rightarrow>
          if Some l \<in> set (map source_link sources) then sources
          else sources @ [Source txt (Some l)])"

text \<open>Modelled from the spec: search\_tools.py is missing. "Then each lesson's link", in order.\<close>

fun lesson_sources :: "outline_style \<Rightarrow> outline \<Rightarrow> lesson_entry list \<Rightarrow> source list \<Rightarrow> source list" where
  "lesson_sources st ol [] sources = sources"
| "lesson_sources st ol (l # ls) sources =
     lesson_sources st ol ls (record_link sources (lesson_text st ol l) (lesson_link l))"

text \<open>
  Modelled from the spec: search\_tools.py is missing. The citations of an outline: "always
  records the course-level link first (if present), then each lesson's link".
\<close>

definition outline_sources :: "outline_style \<Rightarrow> outline \<Rightarrow> source list" where
  "outline_sources st ol =
     lesson_sources st ol (lessons ol) (record_link [] (course_text st ol) (course_link ol))"

text \<open>
  Modelled from the spec: search\_tools.py is missing. \<open>OutlineTool.execute\<close>
  returns the text for the model together with the recorded sources: the "course not
  found" message and nothing when the backend resolves no outline, else the rendered
  outline and its citations.
\<close>

definition OutlineTool_execute :: "outline_style \<Rightarrow> backend \<Rightarrow> string \<Rightarrow> string \<times> source list" where
  "OutlineTool_execute st store course_name =
     (case get_course_outline store course_name of
        None \<Rightarrow> (not_found st course_name, [])
      | Some ol \<Rightarrow> (render st ol, outline_sources st ol))"

text \<open>
  The link values of an outline in recording order (the course link, then the lesson
  links), against which the citations are counted.
\<close>

fun option_list :: "'a option \<Rightarrow> 'a list" where
  "option_list None = []"
| "option_list (Some x) = [x]"

definition outline_links :: "outline \<Rightarrow> string list" where
  "outline_links ol = option_list (course_link ol) @ concat (map (\<lambda>l. option_list (lesson_link l)) (lessons ol))"

text \<open>First-seen order without repetition: the first occurrence of every element is kept.\<close>

definition first_seen :: "'a list \<Rightarrow> 'a list" where
  "first_seen xs = rev (remdups (rev xs))"

section \<open>Observing a run\<close>


fun api_calls :: "event list \<Rightarrow> api_params list" where
  "api_calls [] = []"
| "api_calls (ApiCall p # es) = p # api_calls es"
| "api_calls (ToolExec n inp # es) = api_calls es"


fun tool_uses :: "content_block list \<Rightarrow> (string \<times> tool_input) list" where
  "tool_uses [] = []"
| "tool_uses (TextBlock t # bs) = tool_uses bs"
| "tool_uses (ToolUseBlock n i inp # bs) = (n, inp) # tool_uses bs"

definition exec_events :: "(string \<times> tool_input) list \<Rightarrow> event list" where
  "exec_events us = map (\<lambda>(n, inp). ToolExec n inp) us"

text \<open>
  The collaborators of the test suite (tests/test\_multi\_round\_tools.py): a client and a
  tool manager that are \<open>Mock\<close>s with a \<open>side_effect\<close> list, each call taking the next
  scripted outcome; once the list is used up the call raises \<open>StopIteration()\<close>,
  whose \<open>str\<close> is the empty string.
\<close>

type_synonym script = "(string + response) list \<times> (string + string) list"

definition mock_client :: "script client" where
  "mock_client w p =
     (case fst w of [] \<Rightarrow> (Inl [], w) | r # rs \<Rightarrow> (r, (rs, snd w)))"

definition mock_tool_manager :: "script tool_manager" where
  "mock_tool_manager w n inp =
     (case snd w of [] \<Rightarrow> (Inl [], w) | r # rs \<Rightarrow> (r, (fst w, rs)))"

definition ai_generator :: "script AIGenerator" where
  "ai_generator = AIGenerator_init mock_client ''claude-test'' ''SYSTEM''"

definition MockToolUse :: "string \<Rightarrow> string \<Rightarrow> response" where
  "MockToolUse n i = \<lparr>content = [ToolUseBlock n i []], stop_reason = ''tool_use''\<rparr>"

definition MockText :: "string \<Rightarrow> response" where
  "MockText t = \<lparr>content = [TextBlock t], stop_reason = ''end_turn''\<rparr>"

definition start :: "(string + response) list \<Rightarrow> (string + string) list \<Rightarrow> script state" where
  "start rs ts = \<lparr>world = (rs, ts), trace = []\<rparr>"

text \<open>The stores and the outline that tests/test\_deduplication.py and
  tests/test\_course\_search\_tool.py mock.\<close>

definition empty_store :: backend where
  "empty_store = \<lparr>search = (\<lambda>q c l. \<lparr>documents = [], metadata = [], error = None\<rparr>),
     get_lesson_link = (\<lambda>c l. None), get_course_outline = (\<lambda>c. None)\<rparr>"

definition lesson1_store :: backend where
  "lesson1_store =
     \<lparr>search = (\<lambda>q c l.
        \<lparr>documents = [''Content chunk 1 from lesson 1'', ''Content chunk 2 from lesson 1'',
                      ''Content chunk 3 from lesson 1''],
         metadata = [\<lparr>course_title = ''Test Course'', lesson_number = Some 1\<rparr>,
                     \<lparr>course_title = ''Test Course'', lesson_number = Some 1\<rparr>,
                     \<lparr>course_title = ''Test Course'', lesson_number = Some 1\<rparr>],
         error = None\<rparr>),
      get_lesson_link = (\<lambda>c l. Some ''http://example.com/lesson1''),
      get_course_outline = (\<lambda>c. None)\<rparr>"

definition two_lesson_store :: backend where
  "two_lesson_store =
     \<lparr>search = (\<lambda>q c l.
        \<lparr>documents = [''Lesson 1 content'', ''Lesson 2 content'', ''Lesson 1 content again''],
         metadata = [\<lparr>course_title = ''Test Course'', lesson_number = Some 1\<rparr>,
                     \<lparr>course_title = ''Test Course'', lesson_number = Some 2\<rparr>,
                     \<lparr>course_title = ''Test Course'', lesson_number = Some 1\<rparr>],
         error = None\<rparr>),
      get_lesson_link = (\<lambda>c l. None),
      get_course_outline = (\<lambda>c. None)\<rparr>"

definition test_outline :: outline where
  "test_outline =
     \<lparr>outline_title = ''Test Course'', course_link = Some ''http://example.com/course'',
      instructor = ''Test Instructor'',
      lessons = [\<lparr>lesson_no = 1, lesson_title = ''Introduction'', lesson_link = Some ''http://example.com/lesson1''\<rparr>,
                 \<lparr>lesson_no = 2, lesson_title = ''Basics'', lesson_link = Some ''http://example.com/lesson2''\<rparr>,
                 \<lparr>lesson_no = 3, lesson_title = ''Advanced'', lesson_link = Some ''http://example.com/lesson1''\<rparr>]\<rparr>"

definition outline_store :: backend where
  "outline_store =
     \<lparr>search = (\<lambda>q c l. \<lparr>documents = [], metadata = [], error = None\<rparr>),
      get_lesson_link = (\<lambda>c l. None),
      get_course_outline = (\<lambda>c. Some test_outline)\<rparr>"

definition plain_style :: outline_style where
  "plain_style = \<lparr>course_text = outline_title, lesson_text = (\<lambda>ol l. lesson_title l),
     render = outline_title, not_found = (\<lambda>c. ''not found'')\<rparr>"

text \<open>A query as the tests of the generator issue it.\<close>

definition search_tool :: "tool_def list option" where
  "search_tool = Some [ToolDef ''search_course_content'' ''Search for content'' ''object'']"

definition run :: "(string + response) list \<Rightarrow> (string + string) list \<Rightarrow> (exn + string) \<times> script state" where
  "run rs ts = generate_response ai_generator ''Test'' None search_tool (Some mock_tool_manager) (start rs ts)"

text \<open>
  A completion call carries the generator's base parameters when its \<open>model\<close>,
  \<open>temperature\<close> and \<open>max_tokens\<close> are those of \<open>self.base_params\<close>.
\<close>

definition base_fixed :: "'w AIGenerator \<Rightarrow> api_params \<Rightarrow> bool" where
  "base_fixed g p \<longleftrightarrow> model p = model (self_base_params g) \<and>
     temperature p = temperature (self_base_params g) \<and> max_tokens p = max_tokens (self_base_params g)"

text \<open>\<open>test_full_two_rounds\<close>: two tool rounds, then the answer.\<close>

definition two_rounds :: "(exn + string) \<times> script state" where
  "two_rounds = run [Inr (MockToolUse ''search_course_content'' ''t1''),
                     Inr (MockToolUse ''search_course_content'' ''t2''),
                     Inr (MockText ''Combined answer from both searches'')]
                    [Inr ''Result 1'', Inr ''Result 2'']"

text \<open>\<open>test_tool_execution_without_tool_manager\<close>: tools given, no tool manager.\<close>

definition no_manager :: "(exn + string) \<times> script state" where
  "no_manager = generate_response ai_generator ''Query'' None search_tool None
     (start [Inr (MockToolUse ''search_course_content'' ''tool_999'')] [])"




text \<open>
  Runs whose last response has no text in first place: an empty content, and a content
  that starts with a tool-use block after a failed tool.
\<close>

definition empty_final :: "(exn + string) \<times> script state" where
  "empty_final = run [Inr (MockToolUse ''search'' ''t1''), Inr \<lparr>content = [], stop_reason = ''end_turn''\<rparr>]
                     [Inr ''Result 1'']"

definition toolish_final :: "(exn + string) \<times> script state" where
  "toolish_final = run [Inr (MockToolUse ''search'' ''t1''),
                        Inr \<lparr>content = [ToolUseBlock ''search'' ''t2'' []], stop_reason = ''max_tokens''\<rparr>]
                       [Inl ''Database error'']"


text \<open>
  The contents of the assistant turns of a message history, in order: what
  \<open>messages.append({"role": "assistant", "content": current_response.content})\<close> has
  put there (STEP 1 and line 220), one entry per response whose tool requests were taken
  up.
\<close>

fun assistant_contents :: "message list \<Rightarrow> content_block list list" where
  "assistant_contents [] = []"
| "assistant_contents (Message role (Blocks bs) # ms) =
     (if role = ''assistant'' then bs # assistant_contents ms else assistant_contents ms)"
| "assistant_contents (Message role (Query q) # ms) = assistant_contents ms"
| "assistant_contents (Message role (Results rs) # ms) = assistant_contents ms"

text \<open>The tool-use blocks in the assistant turns of a history, in order, and their number.\<close>

definition requested_uses :: "message list \<Rightarrow> (string \<times> tool_input) list" where
  "requested_uses msgs = concat (map tool_uses (assistant_contents msgs))"






lemmas mock_defs =
  generate_response_def execute_tool_rounds_def initial_params_def create_def execute_tool_def
  ai_generator_def AIGenerator_init_def mock_client_def mock_tool_manager_def start_def
  MockToolUse_def MockText_def final_call_def final_params_def next_params_def
  append_results_def exec_events_def search_tool_def run_def rounds_loop.simps

section \<open>Traces of the primitive steps\<close>

lemma trace_create: "trace (snd (create g p s)) = trace s @ [ApiCall p]"
  by (simp add: create_def split: prod.splits sum.splits)

lemma create_eq: "create g p s = (r, s') \<Longrightarrow> trace s' = trace s @ [ApiCall p]"
  using trace_create [of g p s] by simp

lemma execute_tool_eq: "execute_tool tm n inp s = (r, s') \<Longrightarrow> trace s' = trace s @ [ToolExec n inp]"
  by (auto simp: execute_tool_def split: prod.splits)



section \<open>Invariants carried through the round loop\<close>

text \<open>
  A property of the run state that every tool execution and every completion call of the
  loop preserves holds when the loop returns.
\<close>

lemma run_tools_inv:
  "(\<And>s n inp r s'. I s \<Longrightarrow> execute_tool tm n inp s = (r, s') \<Longrightarrow> I s') \<Longrightarrow> I s
   \<Longrightarrow> I (snd (run_tools tm bs acc s))"
proof (induction tm bs acc s rule: run_tools.induct)
  case (1 tm tool_results s)
  then show ?case by simp
next
  case (2 tm t bs tool_results s)
  then show ?case by simp
next
  case (3 tm n i inp bs tool_results s)
  obtain r s' where e: "execute_tool tm n inp s = (r, s')" by (cases "execute_tool tm n inp s")
  have i': "I s'" using "3.prems"(1) [OF "3.prems"(2) e] .
  show ?case
  proof (cases r)
    case (Inl m)
    with e i' show ?thesis by simp
  next
    case (Inr v)
    have "I (snd (run_tools tm bs (tool_results @ [ToolResult i v False]) s'))"
      using "3.IH" [OF e [symmetric] Inr "3.prems"(1) i'] .
    with e Inr show ?thesis by simp
  qed
qed

lemma run_final_tools_inv:
  "(\<And>s n inp r s'. I s \<Longrightarrow> execute_tool tm n inp s = (r, s') \<Longrightarrow> I s') \<Longrightarrow> I s
   \<Longrightarrow> I (snd (run_final_tools tm bs acc s))"
proof (induction tm bs acc s rule: run_final_tools.induct)
  case (1 tm final_tool_results s)
  then show ?case by simp
next
  case (2 tm t bs final_tool_results s)
  then show ?case by simp
next
  case (3 tm n i inp bs final_tool_results s)
  obtain r s' where e: "execute_tool tm n inp s = (r, s')" by (cases "execute_tool tm n inp s")
  have i': "I s'" using "3.prems"(1) [OF "3.prems"(2) e] .
  show ?case
  proof (cases r)
    case (Inl m)
    have "I (snd (run_final_tools tm bs
        (final_tool_results @ [ToolResult i (''Tool execution failed: '' @ m) True]) s'))"
      using "3.IH"(1) [OF e [symmetric] Inl "3.prems"(1) i'] .
    with e Inl show ?thesis by simp
  next
    case (Inr v)
    have "I (snd (run_final_tools tm bs (final_tool_results @ [ToolResult i v False]) s'))"
      using "3.IH"(2) [OF e [symmetric] Inr "3.prems"(1) i'] .
    with e Inr show ?thesis by simp
  qed
qed

lemma final_call_inv:
  assumes call: "\<And>s r s'. I s \<Longrightarrow> create g (final_params g bp msgs) s = (r, s') \<Longrightarrow> I s'"
    and i: "I s"
  shows "I (snd (final_call g bp msgs s))"
proof -
  obtain r s' where c: "create g (final_params g bp msgs) s = (r, s')"
    by (cases "create g (final_params g bp msgs) s")
  have "I s'" using call [OF i c] .
  with c show ?thesis by (cases r) (simp_all add: final_call_def)
qed

lemma rounds_loop_inv:
  "(\<And>s n inp r s'. I s \<Longrightarrow> execute_tool tm n inp s = (r, s') \<Longrightarrow> I s') \<Longrightarrow>
   (\<And>s ms b r s'. I s \<Longrightarrow> create g (next_params g bp ms b) s = (r, s') \<Longrightarrow> I s') \<Longrightarrow>
   I s \<Longrightarrow> I (snd (rounds_loop g bp tm max_rounds current_round msgs current_response s))"
proof (induction g bp tm max_rounds current_round msgs current_response s rule: rounds_loop.induct)
  case (1 g bp tm max_rounds current_round msgs current_response s)
  note step' = "1.prems"(1)
  note call' = "1.prems"(2)
  have fin: "\<And>s ms r s'. I s \<Longrightarrow> create g (final_params g bp ms) s = (r, s') \<Longrightarrow> I s'"
    using call' [where b = True] by (simp add: next_params_def)
  note init = "1.prems"(3)
  show ?case
  proof (cases "current_round < max_rounds")
    case False
    with "1.prems"(3) show ?thesis by (subst rounds_loop.simps) simp
  next
    case True
    let ?msgs1 = "msgs @ [Message ''assistant'' (Blocks (content current_response))]"
    obtain tool_results failed s1 where
      rt: "run_tools tm (content current_response) [] s = ((tool_results, failed), s1)"
      by (metis surj_pair)
    have i1: "I s1"
      using run_tools_inv [of I tm s "content current_response" "[]", OF step' init] rt by simp
    show ?thesis
    proof (cases failed)
      case True
      have "I (snd (final_call g bp (append_results ?msgs1 tool_results) s1))"
        by (rule final_call_inv [where I = I, OF fin i1])
      with \<open>current_round < max_rounds\<close> rt True show ?thesis by (subst rounds_loop.simps) simp
    next
      case False
      let ?msgs2 = "append_results ?msgs1 tool_results"
      let ?last = "current_round + 1 \<ge> max_rounds"
      obtain r2 s2 where cr: "create g (next_params g bp ?msgs2 ?last) s1 = (r2, s2)"
        by (metis surj_pair)
      have i2: "I s2" using call' [OF i1 cr] .
      show ?thesis
      proof (cases r2)
        case (Inl e)
        with \<open>current_round < max_rounds\<close> rt False cr i2 show ?thesis by (subst rounds_loop.simps) simp
      next
        case (Inr r)
        show ?thesis
        proof (cases "stop_reason r \<noteq> ''tool_use''")
          case True
          with \<open>current_round < max_rounds\<close> rt False cr i2 Inr show ?thesis by (subst rounds_loop.simps) simp
        next
          case sr: False
          show ?thesis
          proof (cases ?last)
            case True
            obtain frs s3 where ft: "run_final_tools tm (content r) [] s2 = (frs, s3)"
              by (metis surj_pair)
            have i3: "I s3"
              using run_final_tools_inv [of I tm s2 "content r" "[]", OF step' i2] ft by simp
            have "I (snd (final_call g bp (append_results (?msgs2 @ [Message ''assistant'' (Blocks (content r))]) frs) s3))"
              by (rule final_call_inv [where I = I, OF fin i3])
            with \<open>current_round < max_rounds\<close> rt False cr Inr sr True ft show ?thesis by (subst rounds_loop.simps) simp
          next
            case nl: False
            have "I (snd (rounds_loop g bp tm max_rounds (current_round + 1) ?msgs2 r s2))"
              using "1.IH" [OF \<open>current_round < max_rounds\<close> refl refl rt [symmetric] refl _ refl refl cr [symmetric] Inr _ _ step' call' i2]
                False sr nl by simp
            with \<open>current_round < max_rounds\<close> rt False cr Inr sr nl show ?thesis by (subst rounds_loop.simps) simp
          qed
        qed
      qed
    qed
  qed
qed

section \<open>First-seen deduplication\<close>

lemma str_int_5: "str_int 5 = ''5''"
  by code_simp

lemma str_int_1: "str_int 1 = ''1''"
  by code_simp

lemma first_seen_distinct_id: "distinct xs \<Longrightarrow> first_seen xs = xs"
  by (simp add: first_seen_def distinct_remdups_id)


lemma remdups_skip: "k \<in> set ys \<Longrightarrow> remdups (xs @ k # ys) = remdups (xs @ ys)"
  by (induction xs) auto

lemma first_seen_snoc_old: "k \<in> set xs \<Longrightarrow> first_seen (xs @ k # ys) = first_seen (xs @ ys)"
  by (simp add: first_seen_def remdups_skip)

text \<open>
  The recorded texts are the keys in first-seen order; stated for any distinct accumulator
  so that the induction goes through.
\<close>

lemma extract_sources_texts:
  "distinct (map source_text acc) \<Longrightarrow>
   map source_text (extract_sources store ms acc) = first_seen (map source_text acc @ map source_key ms)"
proof (induction ms arbitrary: acc)
  case Nil
  then show ?case by (simp add: first_seen_distinct_id)
next
  case (Cons m ms)
  let ?src = "Source (source_key m) (get_lesson_link store (course_title m) (lesson_number m))"
  show ?case
  proof (cases "source_key m \<in> set (map source_text acc)")
    case True
    then have "record_source acc ?src = acc" by (simp add: record_source_def)
    with Cons True show ?thesis using first_seen_snoc_old [of "source_key m" "map source_text acc" "map source_key ms"]
      by simp
  next
    case False
    then have r: "record_source acc ?src = acc @ [?src]" by (simp add: record_source_def)
    from False Cons.prems have "distinct (map source_text (acc @ [?src]))" by simp
    from Cons.IH [OF this] r show ?thesis by simp
  qed
qed

lemma extract_sources_from:
  "set (extract_sources store ms acc) \<subseteq>
     set acc \<union> (\<lambda>m. Source (source_key m) (get_lesson_link store (course_title m) (lesson_number m))) ` set ms"
proof (induction ms arbitrary: acc)
  case Nil
  show ?case by simp
next
  case (Cons m ms)
  show ?case using Cons [of "record_source acc (Source (source_key m) (get_lesson_link store (course_title m) (lesson_number m)))"]
    by (auto simp: record_source_def split: if_splits)
qed

lemma first_seen_set: "set (first_seen xs) = set xs"
  by (simp add: first_seen_def)

lemma first_seen_length: "length (first_seen xs) = card (set xs)"
  by (metis first_seen_def length_rev length_remdups_card_conv set_rev)


lemma lesson_sources_links:
  "distinct (map source_link acc) \<Longrightarrow> (\<forall>src \<in> set acc. source_link src \<noteq> None) \<Longrightarrow>
   map source_link (lesson_sources st ol ls acc) =
     map Some (first_seen (map (\<lambda>a. the (source_link a)) acc @ concat (map (\<lambda>l. option_list (lesson_link l)) ls)))"
proof (induction ls arbitrary: acc)
  case Nil
  then have a: "map source_link acc = map Some (map (\<lambda>a. the (source_link a)) acc)"
    by (induction acc) auto
  with Nil have "distinct (map Some (map (\<lambda>a. the (source_link a)) acc))" by simp
  moreover have "\<And>xs :: string list. distinct (map Some xs) \<Longrightarrow> distinct xs"
    by (simp add: distinct_map)
  ultimately have "distinct (map (\<lambda>a. the (source_link a)) acc)" by blast
  then have "first_seen (map (\<lambda>a. the (source_link a)) acc) = map (\<lambda>a. the (source_link a)) acc"
    by (rule first_seen_distinct_id)
  with a show ?case by simp
next
  case (Cons l ls)
  show ?case
  proof (cases "lesson_link l")
    case None
    with Cons show ?thesis by (simp add: record_link_def)
  next
    case (Some k)
    show ?thesis
    proof (cases "Some k \<in> set (map source_link acc)")
      case True
      then obtain src where "src \<in> set acc" "source_link src = Some k" by auto
      then have "the (source_link src) = k" "src \<in> set acc" by simp_all
      then have "k \<in> (\<lambda>a. the (source_link a)) ` set acc" by blast
      then have "k \<in> set (map (\<lambda>a. the (source_link a)) acc)" by simp
      with True Some Cons show ?thesis
        using first_seen_snoc_old [of k "map (\<lambda>a. the (source_link a)) acc"]
        by (simp add: record_link_def)
    next
      case False
      let ?acc = "acc @ [Source (lesson_text st ol l) (Some k)]"
      from False Cons.prems have "distinct (map source_link ?acc)" "\<forall>src \<in> set ?acc. source_link src \<noteq> None"
        by auto
      from Cons.IH [OF this] False Some show ?thesis by (simp add: record_link_def)
    qed
  qed
qed

text \<open>\<open>first_seen\<close> keeps the head and drops its later occurrences.\<close>

lemma remdups_snoc: "remdups (ys @ [x]) = removeAll x (remdups ys) @ [x]"
  by (induction ys) auto

lemma first_seen_Cons: "first_seen (x # xs) = x # first_seen (removeAll x xs)"
proof -
  have "removeAll x (remdups (rev xs)) = remdups (rev (removeAll x xs))"
    by (simp add: removeAll_filter_not_eq remdups_filter rev_filter)
  then show ?thesis by (simp add: first_seen_def remdups_snoc)
qed

section \<open>Facts about the generator\<close>

lemma create_eq2:
  "client g (world s) p = (r, w) \<Longrightarrow>
   create g p s = (case r of Inl m \<Rightarrow> Inl (ClientError m) | Inr x \<Rightarrow> Inr x,
                   \<lparr>world = w, trace = trace s @ [ApiCall p]\<rparr>)"
  by (cases r) (simp_all add: create_def)

lemma rounds_loop_extends:
  "\<exists>es. trace (snd (rounds_loop g bp tm max_rounds current_round msgs current_response s)) = trace s @ es"
proof -
  let ?I = "\<lambda>s'. \<exists>es. trace s' = trace s @ es"
  have "?I (snd (rounds_loop g bp tm max_rounds current_round msgs current_response s))"
  proof (rule rounds_loop_inv [where I = ?I])
    fix s0 n inp r s' assume "\<exists>es. trace s0 = trace s @ es" "execute_tool tm n inp s0 = (r, s')"
    then show "\<exists>es. trace s' = trace s @ es" using execute_tool_eq by fastforce
  next
    fix s0 ms b r s' assume "\<exists>es. trace s0 = trace s @ es" "create g (next_params g bp ms b) s0 = (r, s')"
    then show "\<exists>es. trace s' = trace s @ es" using create_eq by fastforce
  next
    show "\<exists>es. trace s = trace s @ es" by simp
  qed
  then show ?thesis .
qed

lemma first_text_None: "(\<forall>t. TextBlock t \<notin> set bs) \<Longrightarrow> first_text bs = []"
  by (induction bs rule: first_text.induct) auto

lemma first_text_first:
  "(\<forall>t. TextBlock t \<notin> set pre) \<Longrightarrow> first_text (pre @ TextBlock t # post) = t"
  by (induction pre rule: first_text.induct) auto

lemma api_calls_append: "api_calls (xs @ ys) = api_calls xs @ api_calls ys"
  by (induction xs rule: api_calls.induct) auto

lemma base_fixed_next: "base_fixed g (next_params g bp ms b)"
  by (simp add: base_fixed_def next_params_def final_params_def)

lemma base_fixed_initial: "base_fixed g (initial_params g q h tools_arg)"
  by (simp add: base_fixed_def initial_params_def Let_def)

lemma rounds_loop_base_fixed:
  assumes "\<forall>p \<in> set (api_calls (trace s)). base_fixed g p"
  shows "\<forall>p \<in> set (api_calls (trace (snd (rounds_loop g bp tm max_rounds current_round msgs
            current_response s)))). base_fixed g p"
proof (rule rounds_loop_inv [where I = "\<lambda>s'. \<forall>p \<in> set (api_calls (trace s')). base_fixed g p"])
  fix s0 n inp r s'
  assume "\<forall>p \<in> set (api_calls (trace s0)). base_fixed g p" "execute_tool tm n inp s0 = (r, s')"
  then show "\<forall>p \<in> set (api_calls (trace s')). base_fixed g p"
    using execute_tool_eq [of tm n inp s0 r s'] by (simp add: api_calls_append)
next
  fix s0 ms b r s'
  assume "\<forall>p \<in> set (api_calls (trace s0)). base_fixed g p"
    "create g (next_params g bp ms b) s0 = (r, s')"
  then show "\<forall>p \<in> set (api_calls (trace s')). base_fixed g p"
    using create_eq [of g _ s0 r s'] base_fixed_next [of g bp ms b] by (simp add: api_calls_append)
next
  show "\<forall>p \<in> set (api_calls (trace s)). base_fixed g p" by (rule assms)
qed

lemma generate_response_base_fixed:
  assumes "trace s = []"
  shows "\<forall>p \<in> set (api_calls (trace (snd (generate_response g q h tools_arg tool_manager s)))). base_fixed g p"
proof -
  let ?p = "initial_params g q h tools_arg"
  obtain r s1 where c: "create g ?p s = (r, s1)" by (metis surj_pair)
  have t1: "trace s1 = [ApiCall ?p]" using create_eq [OF c] assms by simp
  then have i1: "\<forall>p \<in> set (api_calls (trace s1)). base_fixed g p"
    by (simp add: base_fixed_initial)
  show ?thesis
  proof (cases r)
    case (Inl e)
    with c i1 show ?thesis by (simp add: generate_response_def Let_def)
  next
    case (Inr resp)
    show ?thesis
    proof (cases tool_manager)
      case None
      with c i1 Inr show ?thesis by (simp add: generate_response_def Let_def)
    next
      case (Some tm)
      show ?thesis
      proof (cases "stop_reason resp = ''tool_use''")
        case True
        have "generate_response g q h tools_arg tool_manager s =
            rounds_loop g ?p tm 2 0 (messages ?p) resp s1"
          using c Inr Some True by (simp add: generate_response_def Let_def execute_tool_rounds_def)
        then show ?thesis using rounds_loop_base_fixed [OF i1] by simp
      next
        case False
        with c i1 Inr Some show ?thesis by (simp add: generate_response_def Let_def)
      qed
    qed
  qed
qed

lemma generate_response_first_call:
  "\<exists>rest. trace (snd (generate_response g q h tools_arg tool_manager s)) =
     trace s @ ApiCall (initial_params g q h tools_arg) # rest"
proof -
  let ?p = "initial_params g q h tools_arg"
  obtain r s1 where c: "create g ?p s = (r, s1)" by (metis surj_pair)
  have t1: "trace s1 = trace s @ [ApiCall ?p]" using create_eq [OF c] .
  show ?thesis
  proof (cases r)
    case (Inl e)
    with c t1 show ?thesis by (simp add: generate_response_def Let_def)
  next
    case (Inr resp)
    show ?thesis
    proof (cases tool_manager)
      case None
      with c t1 Inr show ?thesis by (simp add: generate_response_def Let_def)
    next
      case (Some tm)
      show ?thesis
      proof (cases "stop_reason resp = ''tool_use''")
        case True
        have "generate_response g q h tools_arg tool_manager s =
            rounds_loop g ?p tm 2 0 (messages ?p) resp s1"
          using c Inr Some True by (simp add: generate_response_def Let_def execute_tool_rounds_def)
        then show ?thesis using rounds_loop_extends [of g ?p tm 2 0 "messages ?p" resp s1] t1 by auto
      next
        case False
        with c t1 Inr Some show ?thesis by (simp add: generate_response_def Let_def)
      qed
    qed
  qed
qed













text \<open>
  Accounting: every tool execution is matched by a tool-use block of an assistant turn
  in the history of the next completion call.
\<close>

lemma assistant_contents_append:
  "assistant_contents (xs @ ys) = assistant_contents xs @ assistant_contents ys"
  by (induction xs rule: assistant_contents.induct) auto

lemma assistant_contents_results [simp]:
  "assistant_contents (append_results ms rs) = assistant_contents ms"
  by (simp add: append_results_def assistant_contents_append)

lemma requested_uses_results [simp]:
  "requested_uses (append_results ms rs) = requested_uses ms"
  by (simp add: requested_uses_def)

lemma requested_uses_assistant [simp]:
  "requested_uses (ms @ [Message ''assistant'' (Blocks bs)]) = requested_uses ms @ tool_uses bs"
  by (simp add: requested_uses_def assistant_contents_append)

lemma messages_final_params [simp]: "messages (final_params g bp ms) = ms"
  by (simp add: final_params_def)

lemma messages_next_params [simp]: "messages (next_params g bp ms b) = ms"
  by (simp add: next_params_def)




section \<open>The claims\<close>











text \<open>
  Claim C4. Whenever the first completion response's stop signal is not tool-use, or no
  tool executor was supplied, \<open>generate_response\<close> makes exactly one completion call,
  executes no tool (the trace grows by that one call only), and returns the text of the
  first text block of the response content, or the empty string if there is none.
\<close>

theorem C4_direct_answer:
  assumes "client g (world s) (initial_params g q h tools_arg) = (Inr r, w)"
    and "stop_reason r \<noteq> ''tool_use'' \<or> tool_manager = None"
  shows "\<exists>answer.
           generate_response g q h tools_arg tool_manager s =
             (Inr answer, \<lparr>world = w, trace = trace s @ [ApiCall (initial_params g q h tools_arg)]\<rparr>) \<and>
           ((\<forall>t. TextBlock t \<notin> set (content r)) \<longrightarrow> answer = []) \<and>
           (\<forall>pre t post. content r = pre @ TextBlock t # post \<and> (\<forall>t'. TextBlock t' \<notin> set pre)
              \<longrightarrow> answer = t)"
proof -
  have c: "create g (initial_params g q h tools_arg) s =
      (Inr r, \<lparr>world = w, trace = trace s @ [ApiCall (initial_params g q h tools_arg)]\<rparr>)"
    using create_eq2 [OF assms(1)] by simp
  have "generate_response g q h tools_arg tool_manager s =
      (Inr (first_text (content r)), \<lparr>world = w, trace = trace s @ [ApiCall (initial_params g q h tools_arg)]\<rparr>)"
    using assms(2) c by (cases tool_manager) (auto simp: generate_response_def Let_def)
  moreover have "(\<forall>t. TextBlock t \<notin> set (content r)) \<longrightarrow> first_text (content r) = []"
    using first_text_None by blast
  moreover have "\<forall>pre t post. content r = pre @ TextBlock t # post \<and> (\<forall>t'. TextBlock t' \<notin> set pre)
              \<longrightarrow> first_text (content r) = t"
    using first_text_first by auto
  ultimately show ?thesis by blast
qed

theorem C4_direct_answer_witness:
  "generate_response ai_generator ''Query'' None search_tool None
     (start [Inr \<lparr>content = [ToolUseBlock ''search_course_content'' ''tool_999'' [(''query'', ''test'')]],
                   stop_reason = ''tool_use''\<rparr>] []) =
     (Inr [], \<lparr>world = ([], []), trace = [ApiCall (initial_params ai_generator ''Query'' None search_tool)]\<rparr>) \<and>
   generate_response ai_generator ''What is AI?'' None search_tool (Some mock_tool_manager)
     (start [Inr \<lparr>content = [ToolUseBlock ''search_course_content'' ''t0'' [], TextBlock ''Direct answer without tools'',
                              TextBlock ''more''],
                   stop_reason = ''end_turn''\<rparr>] []) =
     (Inr ''Direct answer without tools'',
      \<lparr>world = ([], []), trace = [ApiCall (initial_params ai_generator ''What is AI?'' None search_tool)]\<rparr>)"
proof -
  let ?r1 = "\<lparr>content = [ToolUseBlock ''search_course_content'' ''tool_999'' [(''query'', ''test'')]],
                   stop_reason = ''tool_use''\<rparr>"
  let ?r2 = "\<lparr>content = [ToolUseBlock ''search_course_content'' ''t0'' [], TextBlock ''Direct answer without tools'',
                              TextBlock ''more''],
                   stop_reason = ''end_turn''\<rparr>"
  have a: "client ai_generator (world (start [Inr ?r1] [])) (initial_params ai_generator ''Query'' None search_tool)
      = (Inr ?r1, ([], []))"
    by (simp add: ai_generator_def AIGenerator_init_def mock_client_def start_def)
  have b: "client ai_generator (world (start [Inr ?r2] [])) (initial_params ai_generator ''What is AI?'' None search_tool)
      = (Inr ?r2, ([], []))"
    by (simp add: ai_generator_def AIGenerator_init_def mock_client_def start_def)
  have c: "content ?r2 = [ToolUseBlock ''search_course_content'' ''t0'' []] @ TextBlock ''Direct answer without tools'' # [TextBlock ''more'']
     \<and> (\<forall>t'. TextBlock t' \<notin> set [ToolUseBlock ''search_course_content'' ''t0'' []])"
    by simp
  have d: "\<forall>t. TextBlock t \<notin> set (content ?r1)" by simp
  have sa: "stop_reason ?r1 \<noteq> ''tool_use'' \<or> (None :: script tool_manager option) = None" by simp
  have sb: "stop_reason ?r2 \<noteq> ''tool_use'' \<or> Some mock_tool_manager = None" by simp
  from C4_direct_answer [OF a sa] obtain a1 where
    g1: "generate_response ai_generator ''Query'' None search_tool None (start [Inr ?r1] []) =
      (Inr a1, \<lparr>world = ([], []),
         trace = trace (start [Inr ?r1] []) @ [ApiCall (initial_params ai_generator ''Query'' None search_tool)]\<rparr>)"
    and f1: "(\<forall>t. TextBlock t \<notin> set (content ?r1)) \<longrightarrow> a1 = []"
    by blast
  from f1 d have e1: "a1 = []" by blast
  from C4_direct_answer [OF b sb] obtain a2 where
    g2: "generate_response ai_generator ''What is AI?'' None search_tool (Some mock_tool_manager) (start [Inr ?r2] []) =
      (Inr a2, \<lparr>world = ([], []),
         trace = trace (start [Inr ?r2] []) @ [ApiCall (initial_params ai_generator ''What is AI?'' None search_tool)]\<rparr>)"
    and f2: "\<forall>pre t post. content ?r2 = pre @ TextBlock t # post \<and> (\<forall>t'. TextBlock t' \<notin> set pre)
              \<longrightarrow> a2 = t"
    by blast
  from f2 c have e2: "a2 = ''Direct answer without tools''" by blast
  from g1 e1 have 1: "generate_response ai_generator ''Query'' None search_tool None (start [Inr ?r1] []) =
     (Inr [], \<lparr>world = ([], []), trace = [ApiCall (initial_params ai_generator ''Query'' None search_tool)]\<rparr>)"
    by (simp add: start_def)
  from g2 e2 have 2: "generate_response ai_generator ''What is AI?'' None search_tool (Some mock_tool_manager) (start [Inr ?r2] []) =
     (Inr ''Direct answer without tools'',
      \<lparr>world = ([], []), trace = [ApiCall (initial_params ai_generator ''What is AI?'' None search_tool)]\<rparr>)"
    by (simp add: start_def)
  from 1 2 show ?thesis by simp
qed

text \<open>
  Claim C5 (\<open>generate_response\<close> returns a string for every shape of response, and
  only exceptions of the completion call propagate), evaluated on two runs in which no
  completion call raises: a last response with empty content raises IndexError, and one
  whose first block is a tool-use block raises AttributeError.
\<close>

theorem C5_finalization_raises:
  "fst empty_final = Inl IndexError \<and> fst toolish_final = Inl AttributeError \<and>
   length (api_calls (trace (snd empty_final))) = 2 \<and> world (snd empty_final) = ([], [])"
  by (simp add: empty_final_def toolish_final_def mock_defs)

text \<open>
  Claim C6 as stated fails: with tool definitions and no tool manager, the first call
  still carries the tools and the automatic tool choice.
\<close>

theorem C6_counterexample:
  "map tools (api_calls (trace (snd no_manager))) = [search_tool] \<and>
   map tool_choice (api_calls (trace (snd no_manager))) = [Some ''auto''] \<and>
   search_tool \<noteq> None"
  by (simp add: no_manager_def mock_defs)

text \<open>
  Claim C6, as amended. The first completion call carries the tool definitions, with
  automatic tool choice, exactly when a non-empty list of tool definitions was supplied,
  whether or not a tool manager was supplied; otherwise it carries neither \<open>tools\<close> nor
  \<open>tool_choice\<close>.
\<close>

theorem C6_tools_follow_definitions:
  "\<exists>p rest.
     trace (snd (generate_response g q h tools_arg tool_manager s)) = trace s @ ApiCall p # rest \<and>
     (truthy tools_arg \<longrightarrow> tools p = tools_arg \<and> tool_choice p = Some ''auto'') \<and>
     (\<not> truthy tools_arg \<longrightarrow> tools p = None \<and> tool_choice p = None)"
proof -
  let ?p = "initial_params g q h tools_arg"
  obtain rest where "trace (snd (generate_response g q h tools_arg tool_manager s)) =
     trace s @ ApiCall ?p # rest"
    using generate_response_first_call by blast
  moreover have "truthy tools_arg \<longrightarrow> tools ?p = tools_arg \<and> tool_choice ?p = Some ''auto''"
    by (simp add: initial_params_def Let_def)
  moreover have "\<not> truthy tools_arg \<longrightarrow> tools ?p = None \<and> tool_choice ?p = None"
    by (simp add: initial_params_def Let_def)
  ultimately show ?thesis by blast
qed

theorem C6_tools_follow_definitions_witness:
  "\<exists>p rest. trace (snd no_manager) = ApiCall p # rest \<and> tools p = search_tool \<and> tool_choice p = Some ''auto''"
proof -
  have t: "truthy search_tool" by (simp add: search_tool_def)
  have e: "trace (start [Inr (MockToolUse ''search_course_content'' ''tool_999'')] []) = []"
    by (simp add: start_def)
  from C6_tools_follow_definitions [of ai_generator "''Query''" None search_tool None
      "start [Inr (MockToolUse ''search_course_content'' ''tool_999'')] []"]
  show ?thesis unfolding no_manager_def e using t by auto
qed

text \<open>
  Claim C7. For every result list of the backend, \<open>SearchTool.execute\<close> records one
  source per composite key, in first-seen order, each carrying the key and the link looked
  up for a result with that key; three results all tagged course "Test Course", lesson 1
  give exactly one source with text "Test Course - Lesson 1", whatever the links are.
\<close>

theorem C7_search_sources_first_seen:
  assumes "search store q c l = r" and "error r = None" and "documents r \<noteq> []"
    and "length (documents r) = length (metadata r)"
  shows "map source_text (snd (SearchTool_execute store q c l)) = first_seen (map source_key (metadata r)) \<and>
         set (snd (SearchTool_execute store q c l)) \<subseteq>
           (\<lambda>m. Source (source_key m) (get_lesson_link store (course_title m) (lesson_number m))) ` set (metadata r) \<and>
         ((\<forall>m \<in> set (metadata r). course_title m = ''Test Course'' \<and> lesson_number m = Some 1) \<longrightarrow>
            snd (SearchTool_execute store q c l) =
              [Source ''Test Course - Lesson 1'' (get_lesson_link store ''Test Course'' (Some 1))])"
proof -
  let ?srcs = "snd (SearchTool_execute store q c l)"
  have z: "map snd (zip (documents r) (metadata r)) = metadata r"
    using assms(4) by simp
  have s: "?srcs = extract_sources store (metadata r) []"
    using assms(1,2,3) z by (simp add: SearchTool_execute_def Let_def)
  have t: "map source_text ?srcs = first_seen (map source_key (metadata r))"
    using extract_sources_texts [of "[]" store "metadata r"] s by simp
  have u: "set ?srcs \<subseteq>
      (\<lambda>m. Source (source_key m) (get_lesson_link store (course_title m) (lesson_number m))) ` set (metadata r)"
    using extract_sources_from [of store "metadata r" "[]"] s by simp
  have v: "?srcs = [Source ''Test Course - Lesson 1'' (get_lesson_link store ''Test Course'' (Some 1))]"
    if h: "\<forall>m \<in> set (metadata r). course_title m = ''Test Course'' \<and> lesson_number m = Some 1"
  proof -
    from assms(3,4) obtain m ms where ms: "metadata r = m # ms" by (cases "metadata r") auto
    from h have k: "\<forall>m \<in> set (metadata r). source_key m = ''Test Course - Lesson 1''"
      by (simp add: source_key_def str_int_1)
    then have "map source_key (metadata r) = replicate (length (metadata r)) ''Test Course - Lesson 1''"
      by (simp add: map_replicate_const [symmetric] cong: map_cong)
    then have "set (map source_key (metadata r)) = {''Test Course - Lesson 1''}"
      using ms by (metis length_0_conv list.distinct(1) set_replicate)
    then have "card (set (map source_text ?srcs)) = 1 \<and> length (map source_text ?srcs) = 1"
      using t by (simp add: first_seen_set first_seen_length del: set_map)
    then obtain x where x: "?srcs = [x]"
      by (metis length_map length_0_conv length_Suc_conv One_nat_def)
    with u h have "x = Source ''Test Course - Lesson 1'' (get_lesson_link store ''Test Course'' (Some 1))"
      using k by auto
    with x show ?thesis by simp
  qed
  from t u v show ?thesis by blast
qed

theorem C7_search_sources_first_seen_witness:
  "snd (SearchTool_execute lesson1_store ''test query'' None None) =
     [Source ''Test Course - Lesson 1'' (Some ''http://example.com/lesson1'')] \<and>
   map source_text (snd (SearchTool_execute two_lesson_store ''test query'' None None)) =
     [''Test Course - Lesson 1'', ''Test Course - Lesson 2'']"
proof -
  have a: "snd (SearchTool_execute lesson1_store ''test query'' None None) =
     [Source ''Test Course - Lesson 1'' (Some ''http://example.com/lesson1'')]"
    using C7_search_sources_first_seen [of lesson1_store "''test query''" None None
        "search lesson1_store ''test query'' None None"]
    by (simp add: lesson1_store_def)
  have k2: "str_int 2 = ''2''" by code_simp
  have b: "map source_text (snd (SearchTool_execute two_lesson_store ''test query'' None None)) =
     [''Test Course - Lesson 1'', ''Test Course - Lesson 2'']"
    using C7_search_sources_first_seen [of two_lesson_store "''test query''" None None
        "search two_lesson_store ''test query'' None None"]
    by (simp add: two_lesson_store_def source_key_def str_int_1 k2 first_seen_def)
  from a b show ?thesis by simp
qed

text \<open>
  Claim C8. For every resolved course outline, \<open>OutlineTool.execute\<close> records the
  course-level link first (when present), then the lesson links, deduplicated by link
  value, so the number of citations is the number of distinct link values among the
  course link and the lesson links.
\<close>

theorem C8_outline_citations:
  assumes "get_course_outline store course_name = Some ol"
  shows "map source_link (snd (OutlineTool_execute st store course_name)) =
           map Some (first_seen (outline_links ol)) \<and>
         length (snd (OutlineTool_execute st store course_name)) = card (set (outline_links ol)) \<and>
         (\<forall>k. course_link ol = Some k \<longrightarrow>
            hd (snd (OutlineTool_execute st store course_name)) = Source (course_text st ol) (Some k))"
proof -
  let ?srcs = "snd (OutlineTool_execute st store course_name)"
  let ?acc = "record_link [] (course_text st ol) (course_link ol)"
  have s: "?srcs = lesson_sources st ol (lessons ol) ?acc"
    using assms by (simp add: OutlineTool_execute_def outline_sources_def)
  have d: "distinct (map source_link ?acc)" "\<forall>src \<in> set ?acc. source_link src \<noteq> None"
    by (cases "course_link ol"; simp add: record_link_def)+
  have a: "map (\<lambda>a. the (source_link a)) ?acc = option_list (course_link ol)"
    by (simp add: record_link_def split: option.splits)
  have m: "map source_link ?srcs = map Some (first_seen (outline_links ol))"
    using lesson_sources_links [OF d, of st ol "lessons ol"] s a by (simp add: outline_links_def)
  have "length ?srcs = length (map source_link ?srcs)" by simp
  also have "\<dots> = card (set (outline_links ol))"
    unfolding m by (simp add: first_seen_length)
  finally have n: "length ?srcs = card (set (outline_links ol))" .
  have h: "hd ?srcs = Source (course_text st ol) (Some k)" if k: "course_link ol = Some k" for k
  proof -
    have "\<And>ls acc x. hd (lesson_sources st ol ls (x # acc)) = x"
    proof -
      fix ls show "\<And>acc x. hd (lesson_sources st ol ls (x # acc)) = x"
        by (induction ls) (simp_all add: record_link_def split: option.splits)
    qed
    with k s show ?thesis by (simp add: record_link_def)
  qed
  from m n h show ?thesis by blast
qed

theorem C8_outline_citations_witness:
  "map source_link (snd (OutlineTool_execute plain_style outline_store ''Test Course'')) =
     [Some ''http://example.com/course'', Some ''http://example.com/lesson1'', Some ''http://example.com/lesson2''] \<and>
   length (snd (OutlineTool_execute plain_style outline_store ''Test Course'')) = 3"
proof -
  have g: "get_course_outline outline_store ''Test Course'' = Some test_outline"
    by (simp add: outline_store_def)
  have l: "outline_links test_outline = [''http://example.com/course'', ''http://example.com/lesson1'',
      ''http://example.com/lesson2'', ''http://example.com/lesson1'']"
    by (simp add: outline_links_def test_outline_def)
  have f: "first_seen (outline_links test_outline) = [''http://example.com/course'', ''http://example.com/lesson1'',
      ''http://example.com/lesson2'']"
    unfolding l by (simp add: first_seen_def)
  have c: "card (set (outline_links test_outline)) = 3"
    using first_seen_length [of "outline_links test_outline"] unfolding f by simp
  show ?thesis
    using C8_outline_citations [OF g, of plain_style] f c by simp
qed

text \<open>
  Claim C9. On an empty result without error, \<open>SearchTool.execute\<close> returns exactly
  "No relevant content found." when neither filter was supplied, a string containing
  "No relevant content found" and "in course 'X'" for the course name X, and a string
  containing "in lesson 5" for lesson number 5.
\<close>

theorem C9_no_content_messages:
  assumes "error (search store q c l) = None" and "documents (search store q c l) = []"
  shows "(c = None \<and> l = None \<longrightarrow> fst (SearchTool_execute store q c l) = ''No relevant content found.'') \<and>
         (\<forall>X. c = Some X \<longrightarrow>
            sublist ''No relevant content found'' (fst (SearchTool_execute store q c l)) \<and>
            sublist (''in course '' @ [CHR 0x27] @ X @ [CHR 0x27]) (fst (SearchTool_execute store q c l))) \<and>
         (l = Some 5 \<longrightarrow>
            sublist ''No relevant content found'' (fst (SearchTool_execute store q c l)) \<and>
            sublist ''in lesson 5'' (fst (SearchTool_execute store q c l)))"
proof -
  have r: "fst (SearchTool_execute store q c l) = no_content_message c l"
    using assms by (simp add: SearchTool_execute_def Let_def)
  have a: "c = None \<and> l = None \<longrightarrow> no_content_message c l = ''No relevant content found.''"
    by (simp add: no_content_message_def)
  have b: "sublist ''No relevant content found'' (no_content_message c l)"
    unfolding no_content_message_def by (rule sublist_append_rightI)
  have c: "\<forall>X. c = Some X \<longrightarrow> sublist (''in course '' @ [CHR 0x27] @ X @ [CHR 0x27]) (no_content_message c l)"
  proof (intro allI impI)
    fix X assume "c = Some X"
    then have "no_content_message c l = (''No relevant content found '') @ (''in course '' @ [CHR 0x27] @ X @ [CHR 0x27])
       @ ((case l of None \<Rightarrow> [] | Some n \<Rightarrow> '' in lesson '' @ str_int n) @ ''.'')"
      by (simp add: no_content_message_def)
    then show "sublist (''in course '' @ [CHR 0x27] @ X @ [CHR 0x27]) (no_content_message c l)"
      using sublist_appendI by metis
  qed
  have d: "l = Some 5 \<longrightarrow> sublist ''in lesson 5'' (no_content_message c l)"
  proof
    assume "l = Some 5"
    then have "no_content_message c l = (''No relevant content found''
       @ (case c of None \<Rightarrow> [] | Some c \<Rightarrow> '' in course '' @ [CHR 0x27] @ c @ [CHR 0x27]) @ '' '') @ ''in lesson 5'' @ ''.''"
      by (simp add: no_content_message_def str_int_5)
    then show "sublist ''in lesson 5'' (no_content_message c l)"
      using sublist_appendI by metis
  qed
  show ?thesis unfolding r using a b c d by blast
qed

theorem C9_no_content_messages_witness:
  "fst (SearchTool_execute empty_store ''nonexistent content'' None None) = ''No relevant content found.'' \<and>
   sublist (''in course '' @ [CHR 0x27] @ ''Some Course'' @ [CHR 0x27]) (fst (SearchTool_execute empty_store ''test'' (Some ''Some Course'') None)) \<and>
   sublist ''in lesson 5'' (fst (SearchTool_execute empty_store ''test'' None (Some 5)))"
proof -
  have e: "\<And>q c l. error (search empty_store q c l) = None" by (simp add: empty_store_def)
  have d: "\<And>q c l. documents (search empty_store q c l) = []" by (simp add: empty_store_def)
  show ?thesis
    using C9_no_content_messages [of empty_store "''nonexistent content''" None None, OF e d]
      C9_no_content_messages [of empty_store "''test''" "Some ''Some Course''" None, OF e d]
      C9_no_content_messages [of empty_store "''test''" None "Some 5", OF e d]
    by simp
qed

text \<open>
  Claim C10. Every completion call made during one \<open>generate_response\<close> (the initial
  call, the calls of the rounds and the final calls) uses the configured model,
  temperature 0 and max\_tokens 800.
\<close>

theorem C10_fixed_parameters:
  assumes "trace s = []"
  shows "\<forall>p \<in> set (api_calls (trace (snd (generate_response (AIGenerator_init c m prompt) q h
            tools_arg tool_manager s)))).
           model p = m \<and> temperature p = 0 \<and> max_tokens p = 800"
  using generate_response_base_fixed [OF assms, of "AIGenerator_init c m prompt" q h tools_arg tool_manager]
  by (simp add: base_fixed_def AIGenerator_init_def)

theorem C10_fixed_parameters_witness:
  "length (api_calls (trace (snd two_rounds))) = 3 \<and>
   model (api_calls (trace (snd two_rounds)) ! 2) = ''claude-test'' \<and>
   temperature (api_calls (trace (snd two_rounds)) ! 2) = 0 \<and>
   max_tokens (api_calls (trace (snd two_rounds)) ! 2) = 800"
proof -
  have l: "length (api_calls (trace (snd two_rounds))) = 3"
    by (simp add: two_rounds_def mock_defs)
  then have "api_calls (trace (snd two_rounds)) ! 2 \<in> set (api_calls (trace (snd two_rounds)))"
    by simp
  moreover have "trace (start [Inr (MockToolUse ''search_course_content'' ''t1''),
                     Inr (MockToolUse ''search_course_content'' ''t2''),
                     Inr (MockText ''Combined answer from both searches'')]
                    [Inr ''Result 1'', Inr ''Result 2'']) = []"
    by (simp add: start_def)
  ultimately show ?thesis
    using l C10_fixed_parameters [of _ mock_client "''claude-test''" "''SYSTEM''" "''Test''" None
        search_tool "Some mock_tool_manager"]
    unfolding two_rounds_def run_def ai_generator_def by blast
qed

end
